theory Spec2Isabelle
  imports Complex_Main
begin

section \<open>Conventions of the embedding\<close>

text \<open>
  The repository is a Python options-trading platform. Its pricing and risk core is
  embedded here function by function.

  \<^item> Python floats are modelled as \<^typ>\<open>real\<close>: arithmetic is exact, there is no rounding,
    no NaN and no overflow. Python ints (contract quantities, the contract multiplier,
    day counts) are \<^typ>\<open>int\<close> and are converted where the source mixes them with floats.
  \<^item> Every \<^verbatim>\<open>raise ValueError(msg)\<close> is the value \<open>Inl (ValueError msg)\<close> of a result
    type \<open>error + 'a\<close>, with the message of the source.
  \<^item> \<^verbatim>\<open>date.today()\<close> is a parameter \<open>today\<close>; a date is its day number (an \<^typ>\<open>int\<close>), so
    that \<^verbatim>\<open>(expiration - date.today()).days\<close> is a difference of integers.
  \<^item> The SQLAlchemy session is an explicit database value that is passed in and returned.

  Two consequences of exact arithmetic are kept out of every statement below. A property
  that holds only up to rounding in double precision is not expressed by an equation
  between reals. And \<open>x / 0\<close> is \<open>0\<close> here, where Python raises \<^verbatim>\<open>ZeroDivisionError\<close> for a
  strike of 0 and numpy answers \<^verbatim>\<open>inf\<close> or \<^verbatim>\<open>nan\<close> for a volatility of 0 with time left: the
  pricing formulas are meant for a positive underlying, strike and volatility.
\<close>

datatype error = ValueError string | RuntimeError string

text \<open>Decimal rendering of a non-negative integer, as an f-string does it.\<close>

function str_nat :: "nat \<Rightarrow> string" where
  "str_nat n =
     (if n < 10 then [char_of (48 + n)]
      else str_nat (n div 10) @ [char_of (48 + n mod 10)])"
  by pat_completeness auto
termination
  by (relation "measure id") auto

section \<open>The standard normal distribution (\<^verbatim>\<open>scipy.stats.norm\<close>)\<close>

text \<open>
  \<^verbatim>\<open>norm.pdf\<close> is the density \<open>exp (- x\<^sup>2 / 2) / sqrt (2 pi)\<close>. \<^verbatim>\<open>norm.cdf\<close> is its
  distribution function, \<open>(1 + erf (x / sqrt 2)) / 2\<close>, with the error function given by its
  everywhere convergent Maclaurin series.
\<close>

definition norm_pdf :: "real \<Rightarrow> real" where
  "norm_pdf x = exp (- (x\<^sup>2) / 2) / sqrt (2 * pi)"

definition erf_term :: "real \<Rightarrow> nat \<Rightarrow> real" where
  "erf_term x n = (- 1) ^ n * x ^ (2 * n + 1) / (fact n * real (2 * n + 1))"

definition erf :: "real \<Rightarrow> real" where
  "erf x = 2 / sqrt pi * (\<Sum>n. erf_term x n)"

definition norm_cdf :: "real \<Rightarrow> real" where
  "norm_cdf x = (1 + erf (x / sqrt 2)) / 2"

section \<open>Black-Scholes pricing (\<^verbatim>\<open>models/black_scholes.py\<close>)\<close>

text \<open>
  The source writes the expression for \<open>d1\<close> out in every function that needs it; the
  embedding names it once. \<open>d2\<close> is \<open>d1 - sigma * sqrt T\<close> wherever it occurs.
\<close>

definition bs_d1 :: "real \<Rightarrow> real \<Rightarrow> real \<Rightarrow> real \<Rightarrow> real \<Rightarrow> real \<Rightarrow> real" where
  "bs_d1 S K T r sigma q =
     (ln (S / K) + (r - q + sigma\<^sup>2 / 2) * T) / (sigma * sqrt T)"

definition option_type_error :: error where
  "option_type_error =
     ValueError (''option_type must be '' @ [CHR 0x27] @ ''call'' @ [CHR 0x27]
                 @ '' or '' @ [CHR 0x27] @ ''put'' @ [CHR 0x27])"

definition black_scholes_price ::
  "real \<Rightarrow> real \<Rightarrow> real \<Rightarrow> real \<Rightarrow> real \<Rightarrow> string \<Rightarrow> real \<Rightarrow> error + real" where
  "black_scholes_price S K T r sigma option_type q =
     (if T \<le> 0 then
        (if option_type = ''call'' then Inr (max 0 (S - K)) else Inr (max 0 (K - S)))
      else if sigma \<le> 0 then Inl (ValueError ''Volatility must be positive'')
      else
        (let d1 = bs_d1 S K T r sigma q;
             d2 = d1 - sigma * sqrt T
         in if option_type = ''call'' then
              Inr (S * exp (- q * T) * norm_cdf d1 - K * exp (- r * T) * norm_cdf d2)
            else if option_type = ''put'' then
              Inr (K * exp (- r * T) * norm_cdf (- d2) - S * exp (- q * T) * norm_cdf (- d1))
            else Inl option_type_error))"

section \<open>Greeks (\<^verbatim>\<open>models/greeks.py\<close>)\<close>

definition delta :: "real \<Rightarrow> real \<Rightarrow> real \<Rightarrow> real \<Rightarrow> real \<Rightarrow> string \<Rightarrow> real \<Rightarrow> real" where
  "delta S K T r sigma option_type q =
     (if T \<le> 0 then
        (if option_type = ''call'' then (if S > K then 1 else 0)
         else (if S < K then - 1 else 0))
      else
        (let d1 = bs_d1 S K T r sigma q
         in if option_type = ''call'' then exp (- q * T) * norm_cdf d1
            else exp (- q * T) * (norm_cdf d1 - 1)))"

definition gamma :: "real \<Rightarrow> real \<Rightarrow> real \<Rightarrow> real \<Rightarrow> real \<Rightarrow> real \<Rightarrow> real" where
  "gamma S K T r sigma q =
     (if T \<le> 0 then 0
      else
        (let d1 = bs_d1 S K T r sigma q
         in (exp (- q * T) * norm_pdf d1) / (S * sigma * sqrt T)))"

definition vega :: "real \<Rightarrow> real \<Rightarrow> real \<Rightarrow> real \<Rightarrow> real \<Rightarrow> real \<Rightarrow> real" where
  "vega S K T r sigma q =
     (if T \<le> 0 then 0
      else
        (let d1 = bs_d1 S K T r sigma q;
             vega_value = S * exp (- q * T) * norm_pdf d1 * sqrt T
         in vega_value / 100))"

definition theta :: "real \<Rightarrow> real \<Rightarrow> real \<Rightarrow> real \<Rightarrow> real \<Rightarrow> string \<Rightarrow> real \<Rightarrow> real" where
  "theta S K T r sigma option_type q =
     (if T \<le> 0 then 0
      else
        (let d1 = bs_d1 S K T r sigma q;
             d2 = d1 - sigma * sqrt T;
             term1 = - (S * exp (- q * T) * norm_pdf d1 * sigma) / (2 * sqrt T);
             theta_value =
               (if option_type = ''call'' then
                  term1 + q * S * exp (- q * T) * norm_cdf d1
                        + (- r * K * exp (- r * T) * norm_cdf d2)
                else
                  term1 + (- q * S * exp (- q * T) * norm_cdf (- d1))
                        + r * K * exp (- r * T) * norm_cdf (- d2))
         in theta_value / 365))"

definition rho :: "real \<Rightarrow> real \<Rightarrow> real \<Rightarrow> real \<Rightarrow> real \<Rightarrow> string \<Rightarrow> real \<Rightarrow> real" where
  "rho S K T r sigma option_type q =
     (if T \<le> 0 then 0
      else
        (let d1 = bs_d1 S K T r sigma q;
             d2 = d1 - sigma * sqrt T;
             rho_value =
               (if option_type = ''call'' then K * T * exp (- r * T) * norm_cdf d2
                else - K * T * exp (- r * T) * norm_cdf (- d2))
         in rho_value / 100))"

record greeks =
  g_delta :: real
  g_gamma :: real
  g_vega :: real
  g_theta :: real
  g_rho :: real

definition calculate_all_greeks ::
  "real \<Rightarrow> real \<Rightarrow> real \<Rightarrow> real \<Rightarrow> real \<Rightarrow> string \<Rightarrow> real \<Rightarrow> greeks" where
  "calculate_all_greeks S K T r sigma option_type q =
     \<lparr> g_delta = delta S K T r sigma option_type q,
       g_gamma = gamma S K T r sigma q,
       g_vega = vega S K T r sigma q,
       g_theta = theta S K T r sigma option_type q,
       g_rho = rho S K T r sigma option_type q \<rparr>"

section \<open>Implied volatility (\<^verbatim>\<open>models/black_scholes.py\<close>)\<close>

text \<open>
  The objective handed to the root finder returns \<^verbatim>\<open>float('inf')\<close> when pricing raises, so
  its values are reals extended by that one point.
\<close>

datatype xreal = Finite real | PosInf

text \<open>
  \<^verbatim>\<open>scipy.optimize.brentq\<close> is not part of the repository: it is a parameter. It receives the
  objective, the bracket, \<^verbatim>\<open>xtol\<close> and \<^verbatim>\<open>maxiter\<close>, and returns a root or raises; only a
  \<^verbatim>\<open>ValueError\<close> is caught by the caller.
\<close>

type_synonym brentq = "(real \<Rightarrow> xreal) \<Rightarrow> real \<Rightarrow> real \<Rightarrow> real \<Rightarrow> nat \<Rightarrow> error + real"

text \<open>
  What is used of a bracketing root finder: a root it returns lies in the interval it was
  given.
\<close>

definition brent_in_bracket :: "brentq \<Rightarrow> bool" where
  "brent_in_bracket brent =
     (\<forall>f a b xtol maxiter.
        case brent f a b xtol maxiter of
          Inr x \<Rightarrow> a \<le> x \<and> x \<le> b
        | Inl e \<Rightarrow> True)"

definition objective ::
  "real \<Rightarrow> real \<Rightarrow> real \<Rightarrow> real \<Rightarrow> real \<Rightarrow> string \<Rightarrow> real \<Rightarrow> real \<Rightarrow> xreal" where
  "objective market_price S K T r option_type q sigma =
     (case black_scholes_price S K T r sigma option_type q of
        Inr price \<Rightarrow> Finite (price - market_price)
      | Inl e \<Rightarrow> PosInf)"

text \<open>
  The Newton-Raphson fallback: the body of \<^verbatim>\<open>for i in range(max_iterations)\<close>, with the
  number of iterations still to run as the recursion argument.
\<close>

fun newton_raphson ::
  "real \<Rightarrow> real \<Rightarrow> real \<Rightarrow> real \<Rightarrow> real \<Rightarrow> string \<Rightarrow> real \<Rightarrow> nat \<Rightarrow> real \<Rightarrow> nat \<Rightarrow> real
     \<Rightarrow> error + real" where
  "newton_raphson market_price S K T r option_type q max_iterations tolerance 0 sigma =
     Inl (ValueError (''Failed to converge after '' @ str_nat max_iterations @ '' iterations''))"
| "newton_raphson market_price S K T r option_type q max_iterations tolerance (Suc n) sigma =
     (let d1 = bs_d1 S K T r sigma q;
          vega_raw = S * exp (- q * T) * norm_pdf d1 * sqrt T
      in if vega_raw < 1 / 10 ^ 10 then Inl (ValueError ''Vega too small, cannot converge'')
         else
           (case black_scholes_price S K T r sigma option_type q of
              Inl e \<Rightarrow> Inl e
            | Inr price \<Rightarrow>
                (let price_diff = price - market_price
                 in if \<bar>price_diff\<bar> < tolerance then Inr sigma
                    else
                      (let sigma1 = sigma - price_diff / vega_raw;
                           sigma2 = (if sigma1 \<le> 0 then 1 / 100 else sigma1)
                       in newton_raphson market_price S K T r option_type q
                            max_iterations tolerance n sigma2))))"

text \<open>The root-finding stage: Brent's method on \<open>[0.01, 5.0]\<close>, Newton-Raphson if it raises.\<close>

definition iv_root_finding ::
  "brentq \<Rightarrow> real \<Rightarrow> real \<Rightarrow> real \<Rightarrow> real \<Rightarrow> real \<Rightarrow> string \<Rightarrow> real \<Rightarrow> real \<Rightarrow> nat \<Rightarrow> real
     \<Rightarrow> error + real" where
  "iv_root_finding brent market_price S K T r option_type q initial_sigma max_iterations tolerance =
     (case brent (objective market_price S K T r option_type q) (1 / 100) 5 tolerance max_iterations of
        Inr iv \<Rightarrow> Inr iv
      | Inl (ValueError msg) \<Rightarrow>
          newton_raphson market_price S K T r option_type q max_iterations tolerance
            max_iterations initial_sigma
      | Inl (RuntimeError msg) \<Rightarrow> Inl (RuntimeError msg))"

definition implied_volatility ::
  "brentq \<Rightarrow> real \<Rightarrow> real \<Rightarrow> real \<Rightarrow> real \<Rightarrow> real \<Rightarrow> string \<Rightarrow> real \<Rightarrow> real \<Rightarrow> nat \<Rightarrow> real
     \<Rightarrow> error + real" where
  "implied_volatility brent market_price S K T r option_type q initial_sigma max_iterations tolerance =
     (if T \<le> 0 then Inl (ValueError ''Cannot calculate IV for expired options'')
      else if option_type = ''call'' then
        (let intrinsic = max 0 (S * exp (- q * T) - K * exp (- r * T))
         in if market_price < intrinsic then Inl (ValueError ''Market price below intrinsic value'')
            else iv_root_finding brent market_price S K T r option_type q
                   initial_sigma max_iterations tolerance)
      else
        (let intrinsic = max 0 (K * exp (- r * T) - S * exp (- q * T))
         in if market_price < intrinsic then Inl (ValueError ''Market price below intrinsic value'')
            else iv_root_finding brent market_price S K T r option_type q
                   initial_sigma max_iterations tolerance))"

section \<open>Configuration (\<^verbatim>\<open>config.py\<close>)\<close>

definition OPTIONS_MULTIPLIER :: int where "OPTIONS_MULTIPLIER = 100"
definition REHEDGE_THRESHOLD :: real where "REHEDGE_THRESHOLD = 10 / 100"
definition STOCK_COMMISSION :: real where "STOCK_COMMISSION = 1 / 100"
definition BID_ASK_SPREAD :: real where "BID_ASK_SPREAD = 1 / 100"

section \<open>The database (\<^verbatim>\<open>data/database.py\<close>) and the market data manager\<close>

text \<open>
  The tables are lists in insertion order; rows are records with the columns of the models.
  Time stamps (\<^verbatim>\<open>entry_date\<close>, \<^verbatim>\<open>close_date\<close>, \<^verbatim>\<open>hedge_date\<close>, \<^verbatim>\<open>trade_date\<close>,
  \<^verbatim>\<open>snapshot_date\<close>) are left out: no embedded function reads them. The primary key
  \<^verbatim>\<open>id\<close> of a row is assigned when the row is added, one above the largest key in the table.
\<close>

record position =
  pos_id :: nat
  symbol :: string
  option_type :: string
  strike :: real
  expiration :: int
  quantity :: int
  premium_collected :: real
  entry_price :: real
  status :: string
  close_price :: "real option"
  implied_vol :: real
  risk_free_rate :: real
  dividend_yield :: real

record hedge =
  hedge_id :: nat
  position_id :: nat
  hedge_quantity :: real
  hedge_price :: real
  transaction_cost :: real
  delta_before :: real
  delta_after :: real
  underlying_price :: real
  hedge_type :: string

record trade =
  trade_id :: nat
  trade_position_id :: nat
  trade_type :: string
  trade_symbol :: string
  trade_quantity :: real
  trade_price :: real
  trade_commission :: real
  trade_notes :: string

record pnl_snapshot =
  snap_id :: nat
  snap_position_id :: nat
  snap_underlying_price :: real
  snap_option_price :: real
  snap_delta :: real
  snap_gamma :: real
  snap_vega :: real
  snap_theta :: real
  snap_unrealized_pnl :: real
  snap_realized_pnl :: real
  snap_total_pnl :: real

record database =
  positions :: "position list"
  hedges :: "hedge list"
  trades :: "trade list"
  pnl_snapshots :: "pnl_snapshot list"

definition fresh_id :: "nat list \<Rightarrow> nat" where
  "fresh_id ids = Suc (fold max ids 0)"

text \<open>\<^verbatim>\<open>Position.query.get(position_id)\<close>\<close>

definition query_get :: "database \<Rightarrow> nat \<Rightarrow> position option" where
  "query_get db pid = find (\<lambda>p. pos_id p = pid) (positions db)"

text \<open>\<^verbatim>\<open>Position.query.filter_by(status='open').all()\<close>\<close>

definition query_open :: "database \<Rightarrow> position list" where
  "query_open db = filter (\<lambda>p. status p = ''open'') (positions db)"

text \<open>The relationship \<^verbatim>\<open>position.hedges\<close>: the rows of the hedge table with the position's key.\<close>

definition hedges_of :: "database \<Rightarrow> position \<Rightarrow> hedge list" where
  "hedges_of db p = filter (\<lambda>h. position_id h = pos_id p) (hedges db)"

text \<open>
  The market data manager is a collaborator. \<open>get_stock_price\<close> stands for
  \<^verbatim>\<open>get_stock_price(symbol)['price']\<close>, which raises when no source delivers a quote; within
  one operation the same symbol gets the same answer.
\<close>

record market_data_manager =
  get_stock_price :: "string \<Rightarrow> error + real"
  get_historical_volatility :: "string \<Rightarrow> real"
  get_risk_free_rate :: real

section \<open>Portfolio management (\<^verbatim>\<open>models/portfolio.py\<close>)\<close>

record portfolio =
  pf_market_data :: market_data_manager
  pf_multiplier :: int

definition Portfolio_init :: "market_data_manager \<Rightarrow> portfolio" where
  "Portfolio_init md = \<lparr> pf_market_data = md, pf_multiplier = 100 \<rparr>"

text \<open>The dictionary returned by \<^verbatim>\<open>Portfolio._calculate_position_pnl\<close>.\<close>

record pnl_breakdown =
  pb_option_pnl :: real
  pb_hedge_pnl :: real
  pb_hedge_costs :: real
  pb_unrealized_pnl :: real
  pb_realized_pnl :: real
  pb_total_pnl :: real

definition portfolio_calculate_position_pnl ::
  "portfolio \<Rightarrow> database \<Rightarrow> position \<Rightarrow> real \<Rightarrow> pnl_breakdown" where
  "portfolio_calculate_position_pnl pf db pos current_option_price =
     (let option_pnl =
            (if quantity pos < 0 then
               (premium_collected pos + current_option_price)
                 * real_of_int \<bar>quantity pos\<bar> * real_of_int (pf_multiplier pf)
             else
               (current_option_price - \<bar>premium_collected pos\<bar>)
                 * real_of_int (quantity pos) * real_of_int (pf_multiplier pf));
          hedge_costs = sum_list (map transaction_cost (hedges_of db pos));
          hedge_pnl =
            (case get_stock_price (pf_market_data pf) (symbol pos) of
               Inr current_underlying \<Rightarrow>
                 sum_list (map (\<lambda>h. hedge_quantity h * (current_underlying - hedge_price h))
                               (hedges_of db pos))
             | Inl e \<Rightarrow> 0);
          unrealized_pnl = option_pnl + hedge_pnl;
          realized_pnl = - hedge_costs
      in \<lparr> pb_option_pnl = option_pnl,
           pb_hedge_pnl = hedge_pnl,
           pb_hedge_costs = hedge_costs,
           pb_unrealized_pnl = unrealized_pnl,
           pb_realized_pnl = realized_pnl,
           pb_total_pnl = unrealized_pnl + realized_pnl \<rparr>)"

text \<open>
  \<^verbatim>\<open>update_position_pnl\<close> appends a snapshot; any exception inside is printed and swallowed,
  which leaves the database as it was.
\<close>

definition update_position_pnl :: "portfolio \<Rightarrow> database \<Rightarrow> int \<Rightarrow> position \<Rightarrow> database" where
  "update_position_pnl pf db today pos =
     (case get_stock_price (pf_market_data pf) (symbol pos) of
        Inl e \<Rightarrow> db
      | Inr current_price \<Rightarrow>
          (let days_to_expiry = expiration pos - today;
               T = max (real_of_int days_to_expiry / 365) 0
           in case black_scholes_price current_price (strike pos) T (risk_free_rate pos)
                     (implied_vol pos) (option_type pos) (dividend_yield pos) of
                Inl e \<Rightarrow> db
              | Inr option_price \<Rightarrow>
                  (let gs = calculate_all_greeks current_price (strike pos) T (risk_free_rate pos)
                              (implied_vol pos) (option_type pos) (dividend_yield pos);
                       pnl = portfolio_calculate_position_pnl pf db pos option_price;
                       snapshot =
                         \<lparr> snap_id = fresh_id (map snap_id (pnl_snapshots db)),
                           snap_position_id = pos_id pos,
                           snap_underlying_price = current_price,
                           snap_option_price = option_price,
                           snap_delta = g_delta gs,
                           snap_gamma = g_gamma gs,
                           snap_vega = g_vega gs,
                           snap_theta = g_theta gs,
                           snap_unrealized_pnl = pb_unrealized_pnl pnl,
                           snap_realized_pnl = pb_realized_pnl pnl,
                           snap_total_pnl = pb_total_pnl pnl \<rparr>
                   in db\<lparr>pnl_snapshots := pnl_snapshots db @ [snapshot]\<rparr>)))"

text \<open>\<^verbatim>\<open>_check_risk_limits\<close>: "For now, return True".\<close>

definition check_risk_limits :: "portfolio \<Rightarrow> position \<Rightarrow> bool" where
  "check_risk_limits pf new_position = True"

definition add_position ::
  "portfolio \<Rightarrow> database \<Rightarrow> int \<Rightarrow> string \<Rightarrow> string \<Rightarrow> real \<Rightarrow> int \<Rightarrow> int \<Rightarrow> real
     \<Rightarrow> real option \<Rightarrow> real \<Rightarrow> error + (position \<times> database)" where
  "add_position pf db today ticker kind K expiry qty premium iv_arg div_yield =
     (case get_stock_price (pf_market_data pf) ticker of
        Inl e \<Rightarrow> Inl e
      | Inr current_price \<Rightarrow>
          (let iv = (case iv_arg of
                       None \<Rightarrow> get_historical_volatility (pf_market_data pf) ticker
                     | Some v \<Rightarrow> v);
               rate = get_risk_free_rate (pf_market_data pf);
               pos =
                 \<lparr> pos_id = fresh_id (map pos_id (positions db)),
                   symbol = ticker,
                   option_type = kind,
                   strike = K,
                   expiration = expiry,
                   quantity = qty,
                   premium_collected = (if qty < 0 then premium else - premium),
                   entry_price = current_price,
                   status = ''open'',
                   close_price = None,
                   implied_vol = iv,
                   risk_free_rate = rate,
                   dividend_yield = div_yield \<rparr>
           in if \<not> check_risk_limits pf pos then
                Inl (ValueError ''Position would breach risk limits'')
              else
                (let db1 = db\<lparr>positions := positions db @ [pos]\<rparr>
                 in Inr (pos, update_position_pnl pf db1 today pos))))"

section \<open>P&L tracking (\<^verbatim>\<open>utils/pnl.py\<close>)\<close>

record pnl_tracker =
  pt_market_data :: market_data_manager
  pt_multiplier :: int

definition PnLTracker_init :: "market_data_manager \<Rightarrow> int \<Rightarrow> pnl_tracker" where
  "PnLTracker_init md mult = \<lparr> pt_market_data = md, pt_multiplier = mult \<rparr>"

text \<open>
  The numeric entries of the dictionary returned by \<^verbatim>\<open>calculate_position_pnl\<close>; the
  entries copied from the position and \<^verbatim>\<open>days_held\<close> are left out.
\<close>

record position_pnl =
  current_underlying_price :: real
  current_option_price :: real
  entry_option_price :: real
  option_pnl :: real
  hedge_pnl :: real
  hedge_costs :: real
  net_hedge_pnl :: real
  unrealized_pnl :: real
  realized_pnl :: real
  total_pnl :: real
  roi :: real
  net_hedge_shares :: real
  pnl_greeks :: greeks

definition calculate_position_pnl ::
  "pnl_tracker \<Rightarrow> database \<Rightarrow> int \<Rightarrow> nat \<Rightarrow> error + position_pnl" where
  "calculate_position_pnl tr db today pid =
     (case query_get db pid of
        None \<Rightarrow> Inl (ValueError (''Position '' @ str_nat pid @ '' not found''))
      | Some pos \<Rightarrow>
     (case get_stock_price (pt_market_data tr) (symbol pos) of
        Inl e \<Rightarrow> Inl e
      | Inr underlying \<Rightarrow>
     (let days_to_expiry = expiration pos - today;
          T = max (real_of_int days_to_expiry / 365) 0
      in
     (case (if status pos = ''open'' then
              black_scholes_price underlying (strike pos) T (risk_free_rate pos)
                (implied_vol pos) (option_type pos) (dividend_yield pos)
            else Inr (case close_price pos of None \<Rightarrow> 0 | Some c \<Rightarrow> c)) of
        Inl e \<Rightarrow> Inl e
      | Inr option_price \<Rightarrow>
     (let opt_pnl =
            (if quantity pos < 0 then
               (premium_collected pos + option_price)
                 * real_of_int \<bar>quantity pos\<bar> * real_of_int (pt_multiplier tr)
             else
               (option_price - \<bar>premium_collected pos\<bar>)
                 * real_of_int (quantity pos) * real_of_int (pt_multiplier tr));
          hs = hedges_of db pos;
          total_hedge_pnl = sum_list (map (\<lambda>h. hedge_quantity h * (underlying - hedge_price h)) hs);
          total_hedge_costs = sum_list (map transaction_cost hs);
          hedge_shares = sum_list (map hedge_quantity hs);
          gs = (if status pos = ''open'' \<and> T > 0 then
                  calculate_all_greeks underlying (strike pos) T (risk_free_rate pos)
                    (implied_vol pos) (option_type pos) (dividend_yield pos)
                else \<lparr> g_delta = 0, g_gamma = 0, g_vega = 0, g_theta = 0, g_rho = 0 \<rparr>);
          unrealized = opt_pnl + total_hedge_pnl;
          realized = - total_hedge_costs;
          total = unrealized + realized;
          return_on_capital =
            (if quantity pos < 0 then
               (let initial_premium =
                      \<bar>premium_collected pos\<bar> * real_of_int \<bar>quantity pos\<bar>
                        * real_of_int (pt_multiplier tr)
                in if initial_premium > 0 then total / initial_premium * 100 else 0)
             else
               (let initial_cost =
                      \<bar>premium_collected pos\<bar> * real_of_int (quantity pos)
                        * real_of_int (pt_multiplier tr)
                in if initial_cost > 0 then total / initial_cost * 100 else 0))
      in Inr \<lparr> current_underlying_price = underlying,
               current_option_price = option_price,
               entry_option_price = \<bar>premium_collected pos\<bar>,
               option_pnl = opt_pnl,
               hedge_pnl = total_hedge_pnl,
               hedge_costs = total_hedge_costs,
               net_hedge_pnl = total_hedge_pnl - total_hedge_costs,
               unrealized_pnl = unrealized,
               realized_pnl = realized,
               total_pnl = total,
               roi = return_on_capital,
               net_hedge_shares = hedge_shares,
               pnl_greeks = gs \<rparr>)))))"

text \<open>
  \<^verbatim>\<open>calculate_seller_pnl\<close>, the seller's view of the same position: the entries computed
  from the premium and the current option price, and those taken over from
  \<^verbatim>\<open>calculate_position_pnl\<close>. A long position gets the dictionary \<^verbatim>\<open>{'error': ...}\<close>.
\<close>

record seller_pnl =
  sp_premium_collected :: real
  sp_current_obligation :: real
  sp_option_profit :: real
  sp_hedge_pnl :: real
  sp_total_pnl :: real
  sp_roi :: real
  sp_max_profit :: real
  sp_break_even :: real

datatype seller_result = Seller_Error string | Seller_Pnl seller_pnl

definition calculate_seller_pnl ::
  "pnl_tracker \<Rightarrow> database \<Rightarrow> int \<Rightarrow> nat \<Rightarrow> error + seller_result" where
  "calculate_seller_pnl tr db today pid =
     (case query_get db pid of
        None \<Rightarrow> Inl (ValueError (''Position '' @ str_nat pid @ '' not found''))
      | Some pos \<Rightarrow>
          if quantity pos \<ge> 0 then Inr (Seller_Error ''Not a short (seller) position'')
          else
            (case calculate_position_pnl tr db today pid of
               Inl e \<Rightarrow> Inl e
             | Inr pnl \<Rightarrow>
                 (let premium_total =
                        \<bar>premium_collected pos\<bar> * real_of_int \<bar>quantity pos\<bar>
                          * real_of_int (pt_multiplier tr);
                      current_obligation =
                        current_option_price pnl * real_of_int \<bar>quantity pos\<bar>
                          * real_of_int (pt_multiplier tr)
                  in Inr (Seller_Pnl
                       \<lparr> sp_premium_collected = premium_total,
                         sp_current_obligation = current_obligation,
                         sp_option_profit = premium_total - current_obligation,
                         sp_hedge_pnl = net_hedge_pnl pnl,
                         sp_total_pnl = total_pnl pnl,
                         sp_roi = roi pnl,
                         sp_max_profit = premium_total,
                         sp_break_even =
                           (if option_type pos = ''call''
                            then strike pos + \<bar>premium_collected pos\<bar>
                            else strike pos - \<bar>premium_collected pos\<bar>) \<rparr>))))"

section \<open>Delta hedging (\<^verbatim>\<open>utils/hedging.py\<close>)\<close>

record delta_hedger =
  dh_market_data :: market_data_manager
  dh_multiplier :: int
  rehedge_threshold :: real
  commission_per_share :: real

definition DeltaHedger_init :: "market_data_manager \<Rightarrow> int \<Rightarrow> delta_hedger" where
  "DeltaHedger_init md mult =
     \<lparr> dh_market_data = md,
       dh_multiplier = mult,
       rehedge_threshold = REHEDGE_THRESHOLD,
       commission_per_share = STOCK_COMMISSION \<rparr>"

text \<open>The report of \<^verbatim>\<open>calculate_hedge_requirements\<close>.\<close>

record hedge_requirements =
  hr_symbol :: string
  hr_position_id :: nat
  option_delta :: real
  position_delta :: real
  current_hedge_shares :: real
  net_delta :: real
  required_hedge_shares :: real
  hr_underlying_price :: real
  hedge_value :: real
  commission :: real
  spread_cost :: real
  total_cost :: real
  should_rehedge :: bool

definition calculate_hedge_requirements ::
  "delta_hedger \<Rightarrow> database \<Rightarrow> int \<Rightarrow> position \<Rightarrow> error + hedge_requirements" where
  "calculate_hedge_requirements dh db today pos =
     (case get_stock_price (dh_market_data dh) (symbol pos) of
        Inl e \<Rightarrow> Inl e
      | Inr current_price \<Rightarrow>
          (let days_to_expiry = expiration pos - today;
               T = max (real_of_int days_to_expiry / 365) (1 / 10000);
               opt_delta = delta current_price (strike pos) T (risk_free_rate pos)
                             (implied_vol pos) (option_type pos) (dividend_yield pos);
               pos_delta = opt_delta * real_of_int (quantity pos) * real_of_int (dh_multiplier dh);
               hedge_shares = sum_list (map hedge_quantity (hedges_of db pos));
               net = pos_delta + hedge_shares;
               required = - net;
               value = \<bar>required\<bar> * current_price;
               comm = \<bar>required\<bar> * commission_per_share dh;
               spread = value * BID_ASK_SPREAD / 2;
               cost = comm + spread
           in Inr \<lparr> hr_symbol = symbol pos,
                    hr_position_id = pos_id pos,
                    option_delta = opt_delta,
                    position_delta = pos_delta,
                    current_hedge_shares = hedge_shares,
                    net_delta = net,
                    required_hedge_shares = required,
                    hr_underlying_price = current_price,
                    hedge_value = value,
                    commission = comm,
                    spread_cost = spread,
                    total_cost = cost,
                    should_rehedge =
                      (if pos_delta \<noteq> 0 then \<bar>net / pos_delta\<bar> > rehedge_threshold dh
                       else False) \<rparr>))"

text \<open>
  \<^verbatim>\<open>execute_hedge\<close> adds one row to the hedge table and one to the trade log and commits;
  \<open>None\<close> for the shares is the default argument \<^verbatim>\<open>hedge_shares=None\<close>.
\<close>

definition execute_hedge ::
  "delta_hedger \<Rightarrow> database \<Rightarrow> int \<Rightarrow> position \<Rightarrow> real option \<Rightarrow> string
     \<Rightarrow> error + (hedge \<times> database)" where
  "execute_hedge dh db today pos shares_arg kind =
     (case calculate_hedge_requirements dh db today pos of
        Inl e \<Rightarrow> Inl e
      | Inr hedge_req \<Rightarrow>
          (let shares = (case shares_arg of
                           None \<Rightarrow> required_hedge_shares hedge_req
                         | Some n \<Rightarrow> n)
           in case get_stock_price (dh_market_data dh) (symbol pos) of
                Inl e \<Rightarrow> Inl e
              | Inr current_price \<Rightarrow>
                  (let comm = \<bar>shares\<bar> * commission_per_share dh;
                       value = \<bar>shares\<bar> * current_price;
                       spread = value * BID_ASK_SPREAD / 2;
                       cost = comm + spread;
                       new_hedge =
                         \<lparr> hedge_id = fresh_id (map hedge_id (hedges db)),
                           position_id = pos_id pos,
                           hedge_quantity = shares,
                           hedge_price = current_price,
                           transaction_cost = cost,
                           delta_before = net_delta hedge_req,
                           delta_after = net_delta hedge_req + shares,
                           underlying_price = current_price,
                           hedge_type = kind \<rparr>;
                       new_trade =
                         \<lparr> trade_id = fresh_id (map trade_id (trades db)),
                           trade_position_id = pos_id pos,
                           trade_type = ''hedge_stock'',
                           trade_symbol = symbol pos,
                           trade_quantity = shares,
                           trade_price = current_price,
                           trade_commission = cost,
                           trade_notes = ''Delta hedge ('' @ kind @ '')'' \<rparr>
                   in Inr (new_hedge,
                           db\<lparr>hedges := hedges db @ [new_hedge],
                              trades := trades db @ [new_trade]\<rparr>))))"

text \<open>
  \<^verbatim>\<open>check_rehedge_needed\<close> returns one of two dictionaries: \<^verbatim>\<open>{'needed': False, 'reason': ...}\<close>
  or the full assessment.
\<close>

record rehedge_assessment =
  ra_needed :: bool
  ra_net_delta :: real
  ra_position_delta :: real
  ra_threshold :: real
  ra_delta_ratio :: real
  ra_required_shares :: real
  ra_cost :: real

datatype rehedge_check = Not_Needed string | Assessment rehedge_assessment

fun needed :: "rehedge_check \<Rightarrow> bool" where
  "needed (Not_Needed why) = False"
| "needed (Assessment a) = ra_needed a"

fun reason :: "rehedge_check \<Rightarrow> string option" where
  "reason (Not_Needed why) = Some why"
| "reason (Assessment a) = None"

definition check_rehedge_needed ::
  "delta_hedger \<Rightarrow> database \<Rightarrow> int \<Rightarrow> nat \<Rightarrow> error + rehedge_check" where
  "check_rehedge_needed dh db today pid =
     (case query_get db pid of
        None \<Rightarrow> Inr (Not_Needed ''Position not open'')
      | Some pos \<Rightarrow>
          if status pos \<noteq> ''open'' then Inr (Not_Needed ''Position not open'')
          else
            (case calculate_hedge_requirements dh db today pos of
               Inl e \<Rightarrow> Inl e
             | Inr hedge_req \<Rightarrow>
                 Inr (Assessment
                   \<lparr> ra_needed = should_rehedge hedge_req,
                     ra_net_delta = net_delta hedge_req,
                     ra_position_delta = position_delta hedge_req,
                     ra_threshold = rehedge_threshold dh,
                     ra_delta_ratio =
                       (if position_delta hedge_req \<noteq> 0
                        then \<bar>net_delta hedge_req / position_delta hedge_req\<bar> else 0),
                     ra_required_shares = required_hedge_shares hedge_req,
                     ra_cost = total_cost hedge_req \<rparr>)))"

text \<open>
  \<^verbatim>\<open>auto_rehedge_portfolio\<close>: the loop over the open positions carries the database, the
  recommendations and the executed hedges. An exception in the body is printed and the loop
  continues with the next position; what the body had appended before stays appended.
\<close>

record recommendation =
  rec_position_id :: nat
  rec_symbol :: string
  rec_required_shares :: real
  rec_cost :: real
  rec_net_delta :: real

record executed_hedge =
  ex_position_id :: nat
  ex_hedge_id :: nat
  ex_shares :: real
  ex_cost :: real

record rehedge_summary =
  recommendations :: "recommendation list"
  executed :: "executed_hedge list"
  total_recommendations :: nat
  total_executed :: nat
  summary_total_cost :: real

definition rehedge_body ::
  "delta_hedger \<Rightarrow> int \<Rightarrow> bool \<Rightarrow> position
     \<Rightarrow> database \<times> recommendation list \<times> executed_hedge list
     \<Rightarrow> database \<times> recommendation list \<times> executed_hedge list" where
  "rehedge_body dh today execute pos st =
     (case st of (db, recs, done_hedges) \<Rightarrow>
        (case check_rehedge_needed dh db today (pos_id pos) of
           Inl e \<Rightarrow> (db, recs, done_hedges)
         | Inr (Not_Needed why) \<Rightarrow> (db, recs, done_hedges)
         | Inr (Assessment a) \<Rightarrow>
             if ra_needed a then
               (let rec = \<lparr> rec_position_id = pos_id pos,
                            rec_symbol = symbol pos,
                            rec_required_shares = ra_required_shares a,
                            rec_cost = ra_cost a,
                            rec_net_delta = ra_net_delta a \<rparr>;
                    recs1 = recs @ [rec]
                in if execute then
                     (case execute_hedge dh db today pos None ''rebalance'' of
                        Inl e \<Rightarrow> (db, recs1, done_hedges)
                      | Inr (h, db1) \<Rightarrow>
                          (db1, recs1,
                           done_hedges @ [\<lparr> ex_position_id = pos_id pos,
                                             ex_hedge_id = hedge_id h,
                                             ex_shares = hedge_quantity h,
                                             ex_cost = transaction_cost h \<rparr>]))
                   else (db, recs1, done_hedges))
             else (db, recs, done_hedges)))"

definition auto_rehedge_portfolio ::
  "delta_hedger \<Rightarrow> database \<Rightarrow> int \<Rightarrow> bool \<Rightarrow> rehedge_summary \<times> database" where
  "auto_rehedge_portfolio dh db today execute =
     (let open_positions = query_open db
      in case fold (rehedge_body dh today execute) open_positions (db, [], []) of
           (db1, recs, done_hedges) \<Rightarrow>
             (\<lparr> recommendations = recs,
                executed = (if execute then done_hedges else []),
                total_recommendations = length recs,
                total_executed = (if execute then length done_hedges else 0),
                summary_total_cost =
                  (if execute then sum_list (map ex_cost done_hedges) else 0) \<rparr>,
              db1))"

section \<open>The no-arbitrage floor and the test scenarios\<close>

text \<open>
  The floor of the specification, in its words: \<open>max 0 (S exp (- q T) - K exp (- r T))\<close> for
  calls, \<open>max 0 (K exp (- r T) - S exp (- q T))\<close> for puts. \<^verbatim>\<open>implied_volatility\<close> computes it
  in place as \<^verbatim>\<open>intrinsic\<close>, with every kind other than \<^verbatim>\<open>'call'\<close> on the put side.
\<close>

definition no_arbitrage_floor :: "real \<Rightarrow> real \<Rightarrow> real \<Rightarrow> real \<Rightarrow> string \<Rightarrow> real \<Rightarrow> real" where
  "no_arbitrage_floor S K T r kind q =
     (if kind = ''call'' then max 0 (S * exp (- q * T) - K * exp (- r * T))
      else max 0 (K * exp (- r * T) - S * exp (- q * T)))"

text \<open>
  The scenario of \<^verbatim>\<open>test_platform.py\<close>: the underlying at 150, a call struck at 145, ten
  contracts sold at a premium of 7.50, volatility 25 percent, rate 5 percent.
\<close>

definition example_market :: market_data_manager where
  "example_market =
     \<lparr> get_stock_price = (\<lambda>s. Inr 150),
       get_historical_volatility = (\<lambda>s. 3 / 10),
       get_risk_free_rate = 1 / 20 \<rparr>"

definition empty_database :: database where
  "empty_database = \<lparr> positions = [], hedges = [], trades = [], pnl_snapshots = [] \<rparr>"

text \<open>
  The seller's position is opened on its expiration day, so that the option is worth its
  intrinsic value, 150 - 145 = 5.
\<close>

definition seller_scenario :: "error + (position \<times> database)" where
  "seller_scenario =
     add_position (Portfolio_init example_market) empty_database 0
       ''AAPL'' ''call'' 145 0 (- 10) (15 / 2) (Some (1 / 4)) 0"

definition seller_scenario_pnl :: "error + position_pnl" where
  "seller_scenario_pnl =
     (case seller_scenario of
        Inl e \<Rightarrow> Inl e
      | Inr (pos, db) \<Rightarrow>
          calculate_position_pnl (PnLTracker_init example_market 100) db 0 (pos_id pos))"

text \<open>The same position with thirty days to run, for the hedging functions.\<close>

definition example_position :: position where
  "example_position =
     \<lparr> pos_id = 1, symbol = ''AAPL'', option_type = ''call'', strike = 145,
       expiration = 30, quantity = - 10, premium_collected = 15 / 2, entry_price = 150,
       status = ''open'', close_price = None, implied_vol = 1 / 4,
       risk_free_rate = 1 / 20, dividend_yield = 0 \<rparr>"

definition example_database :: database where
  "example_database =
     \<lparr> positions = [example_position], hedges = [], trades = [], pnl_snapshots = [] \<rparr>"

definition example_hedger :: delta_hedger where
  "example_hedger = DeltaHedger_init example_market 100"

text \<open>A root finder that answers 0.2 whatever it is asked.\<close>

definition example_brentq :: brentq where
  "example_brentq f a b xtol maxiter = Inr (1 / 5)"

section \<open>Properties of the pricer\<close>

lemma erf_term_minus: "erf_term (- x) n = - erf_term x n"
  by (simp add: erf_term_def)

lemma summable_erf_term: "summable (erf_term x)"
proof (rule summable_comparison_test')
  show "summable (\<lambda>n. \<bar>x\<bar> * ((x\<^sup>2) ^ n /\<^sub>R fact n))"
    by (rule summable_mult) (rule summable_exp_generic)
next
  fix n :: nat
  assume "n \<ge> 0"
  have "norm (erf_term x n) = \<bar>x\<bar> * (x\<^sup>2) ^ n / (fact n * real (2 * n + 1))"
    by (simp add: erf_term_def power_abs abs_mult power_mult)
  also have "\<dots> \<le> \<bar>x\<bar> * (x\<^sup>2) ^ n / (fact n * 1)"
    by (intro divide_left_mono mult_left_mono) (auto intro!: mult_nonneg_nonneg)
  finally show "norm (erf_term x n) \<le> \<bar>x\<bar> * ((x\<^sup>2) ^ n /\<^sub>R fact n)"
    by (simp add: divide_inverse mult_ac)
qed

lemma erf_minus: "erf (- x) = - erf x"
  by (simp add: erf_def erf_term_minus suminf_minus summable_erf_term)

lemma norm_cdf_minus: "norm_cdf (- x) = 1 - norm_cdf x"
  by (simp add: norm_cdf_def erf_minus field_simps)

text \<open>
  C5. Expired-option boundary: for \<open>T \<le> 0\<close> and any volatility (which this branch does not
  look at), \<open>black_scholes_price\<close> returns exactly the intrinsic value, \<open>max 0 (S - K)\<close>
  for a call and \<open>max 0 (K - S)\<close> for a put, and gamma, vega, theta and rho are exactly 0.
\<close>

theorem expired_option_boundary:
  assumes "T \<le> 0"
  shows "black_scholes_price S K T r sigma ''call'' q = Inr (max 0 (S - K))
       \<and> black_scholes_price S K T r sigma ''put'' q = Inr (max 0 (K - S))
       \<and> gamma S K T r sigma q = 0
       \<and> vega S K T r sigma q = 0
       \<and> theta S K T r sigma kind q = 0
       \<and> rho S K T r sigma kind q = 0"
  using assms
  by (simp add: black_scholes_price_def gamma_def vega_def theta_def rho_def)

theorem expired_option_boundary_witness:
  "(0::real) \<le> 0
   \<and> black_scholes_price 150 145 0 (1/20) (- 1) ''call'' 0 = Inr 5
   \<and> black_scholes_price 150 145 0 (1/20) (- 1) ''put'' 0 = Inr 0
   \<and> gamma 150 145 0 (1/20) (- 1) 0 = 0
   \<and> vega 150 145 0 (1/20) (- 1) 0 = 0
   \<and> theta 150 145 0 (1/20) (- 1) ''put'' 0 = 0
   \<and> rho 150 145 0 (1/20) (- 1) ''call'' 0 = 0"
  using expired_option_boundary [of 0 150 145 "1/20" "- 1" 0 "''put''"]
        expired_option_boundary [of 0 150 145 "1/20" "- 1" 0 "''call''"]
  by simp

text \<open>
  Put-call parity in exact arithmetic: for \<open>T > 0\<close> and \<open>sigma > 0\<close> both prices are
  returned, and the call price minus the put price is \<open>S exp (- q T) - K exp (- r T)\<close>.
  This is the identity behind C3. The tolerance of C3 is about the same expressions
  evaluated in double precision, where the two sides differ by rounding that grows with
  the size of \<open>S\<close> and \<open>K\<close>; the lemma says nothing about that.
\<close>

lemma put_call_parity_exact:
  assumes "0 < T" and "0 < sigma"
  shows "\<exists>c p. black_scholes_price S K T r sigma ''call'' q = Inr c
             \<and> black_scholes_price S K T r sigma ''put'' q = Inr p
             \<and> c - p = S * exp (- q * T) - K * exp (- r * T)"
proof -
  let ?d1 = "bs_d1 S K T r sigma q"
  let ?d2 = "?d1 - sigma * sqrt T"
  let ?c = "S * exp (- q * T) * norm_cdf ?d1 - K * exp (- r * T) * norm_cdf ?d2"
  let ?p = "K * exp (- r * T) * norm_cdf (- ?d2) - S * exp (- q * T) * norm_cdf (- ?d1)"
  have call: "black_scholes_price S K T r sigma ''call'' q = Inr ?c"
    using assms by (simp add: black_scholes_price_def Let_def)
  have put: "black_scholes_price S K T r sigma ''put'' q = Inr ?p"
    using assms by (simp add: black_scholes_price_def Let_def)
  have parity: "?c - ?p = S * exp (- q * T) - K * exp (- r * T)"
    by (simp only: norm_cdf_minus) (simp add: algebra_simps)
  from call put parity show ?thesis
    by simp
qed

section \<open>Properties of the implied-volatility solver\<close>

lemma newton_raphson_not_input_error:
  "newton_raphson market_price S K T r kind q m tol n sigma
     \<noteq> Inl (ValueError ''Cannot calculate IV for expired options'')
   \<and> newton_raphson market_price S K T r kind q m tol n sigma
     \<noteq> Inl (ValueError ''Market price below intrinsic value'')"
proof (induction n arbitrary: sigma)
  case 0
  show ?case by simp
next
  case (Suc n)
  show ?case
  proof (cases "black_scholes_price S K T r sigma kind q")
    case (Inl e)
    then have "e = ValueError ''Volatility must be positive'' \<or> e = option_type_error"
      by (auto simp add: black_scholes_price_def Let_def split: if_splits)
    with Inl show ?thesis
      by (auto simp add: Let_def option_type_error_def)
  next
    case (Inr price)
    with Suc show ?thesis
      by (simp add: Let_def)
  qed
qed

lemma iv_root_finding_not_input_error:
  "iv_root_finding brent market_price S K T r kind q s0 m tol
     \<noteq> Inl (ValueError ''Cannot calculate IV for expired options'')
   \<and> iv_root_finding brent market_price S K T r kind q s0 m tol
     \<noteq> Inl (ValueError ''Market price below intrinsic value'')"
  using newton_raphson_not_input_error [of market_price S K T r kind q m tol m s0]
  by (simp add: iv_root_finding_def split: sum.splits error.splits)

text \<open>
  C6. \<open>implied_volatility\<close> fails with the error for an expired option exactly when
  \<open>T \<le> 0\<close>, and with the error for a market price below intrinsic value exactly when
  \<open>T > 0\<close> and the market price is strictly below the no-arbitrage floor. Both happen
  before any root finding: whatever the root finder is, it is not consulted. A market price
  at or above the floor, the floor itself included, is accepted and handed to the
  root-finding stage. The messages of the source are
  \<^verbatim>\<open>Cannot calculate IV for expired options\<close> and \<^verbatim>\<open>Market price below intrinsic value\<close>.
\<close>

theorem implied_volatility_input_checks:
  "(implied_volatility brent market_price S K T r kind q s0 m tol
      = Inl (ValueError ''Cannot calculate IV for expired options'')) = (T \<le> 0)
   \<and> (implied_volatility brent market_price S K T r kind q s0 m tol
      = Inl (ValueError ''Market price below intrinsic value''))
       = (0 < T \<and> market_price < no_arbitrage_floor S K T r kind q)
   \<and> (0 < T \<and> no_arbitrage_floor S K T r kind q \<le> market_price \<longrightarrow>
        implied_volatility brent market_price S K T r kind q s0 m tol
          = iv_root_finding brent market_price S K T r kind q s0 m tol)"
proof -
  let ?iv = "implied_volatility brent market_price S K T r kind q s0 m tol"
  let ?rf = "iv_root_finding brent market_price S K T r kind q s0 m tol"
  let ?floor = "no_arbitrage_floor S K T r kind q"
  have rf: "?rf \<noteq> Inl (ValueError ''Cannot calculate IV for expired options'')"
           "?rf \<noteq> Inl (ValueError ''Market price below intrinsic value'')"
    using iv_root_finding_not_input_error [of brent market_price S K T r kind q s0 m tol]
    by simp_all
  have expired: "?iv = Inl (ValueError ''Cannot calculate IV for expired options'')" if "T \<le> 0"
    using that by (simp add: implied_volatility_def)
  have below: "?iv = Inl (ValueError ''Market price below intrinsic value'')"
    if "0 < T" and "market_price < ?floor"
    using that
    by (cases "kind = ''call''") (simp_all add: implied_volatility_def no_arbitrage_floor_def Let_def)
  have accepted: "?iv = ?rf" if "0 < T" and "?floor \<le> market_price"
    using that
    by (cases "kind = ''call''")
       (simp_all add: implied_volatility_def no_arbitrage_floor_def Let_def not_less [symmetric])
  consider "T \<le> 0" | "0 < T" "market_price < ?floor" | "0 < T" "?floor \<le> market_price"
    by linarith
  then show ?thesis
  proof cases
    case 1
    with expired show ?thesis by simp
  next
    case 2
    with below show ?thesis by simp
  next
    case 3
    with accepted rf show ?thesis by simp
  qed
qed

theorem implied_volatility_input_checks_witness:
  "implied_volatility example_brentq 5 100 90 0 0 ''call'' 0 (3 / 10) 100 (1 / 10 ^ 6)
     = Inl (ValueError ''Cannot calculate IV for expired options'')
   \<and> implied_volatility example_brentq 5 100 90 1 0 ''call'' 0 (3 / 10) 100 (1 / 10 ^ 6)
     = Inl (ValueError ''Market price below intrinsic value'')
   \<and> implied_volatility example_brentq 5 90 100 1 0 ''put'' 0 (3 / 10) 100 (1 / 10 ^ 6)
     = Inl (ValueError ''Market price below intrinsic value'')
   \<and> implied_volatility example_brentq 10 100 90 1 0 ''call'' 0 (3 / 10) 100 (1 / 10 ^ 6)
     = Inr (1 / 5)"
  using implied_volatility_input_checks [of example_brentq 5 100 90 0 0 "''call''" 0 "3 / 10" 100 "1 / 10 ^ 6"]
        implied_volatility_input_checks [of example_brentq 5 100 90 1 0 "''call''" 0 "3 / 10" 100 "1 / 10 ^ 6"]
        implied_volatility_input_checks [of example_brentq 5 90 100 1 0 "''put''" 0 "3 / 10" 100 "1 / 10 ^ 6"]
        implied_volatility_input_checks [of example_brentq 10 100 90 1 0 "''call''" 0 "3 / 10" 100 "1 / 10 ^ 6"]
  by (simp add: no_arbitrage_floor_def iv_root_finding_def example_brentq_def)










lemma brent_in_bracket_satisfiable:
  "brent_in_bracket (\<lambda>f a b xtol maxiter. if a \<le> b then Inr a else Inl (ValueError []))"
  by (simp add: brent_in_bracket_def)





section \<open>Properties of the position book\<close>

lemma fresh_id_Nil: "fresh_id [] = 1"
  by (simp add: fresh_id_def)

lemma add_position_returns:
  assumes "get_stock_price (pf_market_data pf) ticker = Inr price"
  shows "\<exists>pos db'. add_position pf db today ticker kind K expiry qty premium iv_arg div_yield
                     = Inr (pos, db')"
  using assms by (simp add: add_position_def check_risk_limits_def Let_def)

text \<open>
  C2 (as amended). For a position created by \<open>add_position\<close> with a positive premium, the
  stored \<open>premium_collected\<close> is the premium itself, hence positive, when the book
  received money (a short sale, quantity below 0), and the negated premium, hence negative,
  when the book paid money (a long purchase, quantity above 0).
\<close>

theorem add_position_premium_sign:
  assumes "add_position pf db today ticker kind K expiry qty premium iv_arg div_yield = Inr (pos, db')"
    and "0 < premium"
  shows "premium_collected pos = (if qty < 0 then premium else - premium)
       \<and> (qty < 0 \<longrightarrow> 0 < premium_collected pos)
       \<and> (0 < qty \<longrightarrow> premium_collected pos < 0)"
  using assms
  by (auto simp add: add_position_def Let_def split: sum.splits if_splits)

theorem add_position_premium_sign_witness:
  "(\<exists>pos db'. add_position (Portfolio_init example_market) empty_database 0
                 ''AAPL'' ''call'' 145 30 (- 10) (15 / 2) (Some (1 / 4)) 0 = Inr (pos, db')
             \<and> premium_collected pos = 15 / 2 \<and> 0 < premium_collected pos)
   \<and> (\<exists>pos db'. add_position (Portfolio_init example_market) empty_database 0
                 ''AAPL'' ''call'' 145 30 10 (15 / 2) (Some (1 / 4)) 0 = Inr (pos, db')
             \<and> premium_collected pos = - (15 / 2) \<and> premium_collected pos < 0)"
proof -
  have price: "get_stock_price (pf_market_data (Portfolio_init example_market)) ''AAPL'' = Inr 150"
    by (simp add: Portfolio_init_def example_market_def)
  obtain p1 d1 where short:
    "add_position (Portfolio_init example_market) empty_database 0
       ''AAPL'' ''call'' 145 30 (- 10) (15 / 2) (Some (1 / 4)) 0 = Inr (p1, d1)"
    using add_position_returns [OF price] by blast
  obtain p2 d2 where long:
    "add_position (Portfolio_init example_market) empty_database 0
       ''AAPL'' ''call'' 145 30 10 (15 / 2) (Some (1 / 4)) 0 = Inr (p2, d2)"
    using add_position_returns [OF price] by blast
  have "premium_collected p1 = 15 / 2 \<and> 0 < premium_collected p1"
    using add_position_premium_sign [OF short] by simp
  moreover have "premium_collected p2 = - (15 / 2) \<and> premium_collected p2 < 0"
    using add_position_premium_sign [OF long] by simp
  ultimately show ?thesis
    using short long by simp
qed

text \<open>
  C2 as stated asks for a negative \<open>premium_collected\<close> on a short sale. The position of
  ten contracts sold at 7.50 stores 7.50.
\<close>

theorem stored_premium_sign_counterexample:
  "map_sum id (premium_collected \<circ> fst) seller_scenario = Inr (15 / 2)
   \<and> map_sum id (quantity \<circ> fst) seller_scenario = Inr (- 10)
   \<and> \<not> ((15 / 2 :: real) < 0)"
  by (simp add: seller_scenario_def add_position_def Portfolio_init_def example_market_def
        empty_database_def check_risk_limits_def fresh_id_Nil Let_def)

text \<open>
  For every short position \<open>calculate_position_pnl\<close> reports the sum of the stored premium
  and the current option price, times the number of contracts and the multiplier.
\<close>

lemma short_option_pnl_adds_premium:
  assumes "calculate_position_pnl tr db today pid = Inr res"
    and "query_get db pid = Some pos"
    and "quantity pos < 0"
  shows "option_pnl res
           = (premium_collected pos + current_option_price res)
               * real_of_int \<bar>quantity pos\<bar> * real_of_int (pt_multiplier tr)"
proof (cases "get_stock_price (pt_market_data tr) (symbol pos)")
  case (Inl e)
  with assms show ?thesis
    by (simp add: calculate_position_pnl_def)
next
  case (Inr underlying)
  let ?T = "max (real_of_int (expiration pos - today) / 365) 0"
  let ?price = "if status pos = ''open'' then
              black_scholes_price underlying (strike pos) ?T (risk_free_rate pos)
                (implied_vol pos) (option_type pos) (dividend_yield pos)
            else Inr (case close_price pos of None \<Rightarrow> 0 | Some c \<Rightarrow> c)"
  show ?thesis
  proof (cases ?price)
    case (Inl e)
    with assms Inr show ?thesis
      by (simp add: calculate_position_pnl_def Let_def)
  next
    case price: (Inr option_price)
    with assms(1,2) Inr have "res = projr (calculate_position_pnl tr db today pid)"
      by simp
    then show ?thesis
      using assms(2,3) Inr price
      by (simp add: calculate_position_pnl_def Let_def)
  qed
qed

text \<open>
  C1. The seller scenario: premium 7.50, quantity -10, multiplier 100, no hedges, current
  option price 5.00. The claim expects an option P&L of 2500 and a return of 33.3 percent.
  \<open>calculate_position_pnl\<close> adds the current price to the stored premium where its comment
  says "Premium collected - current value", and reports 12500 and 166.7 percent.
\<close>

theorem seller_scenario_option_pnl:
  "map_sum id option_pnl seller_scenario_pnl = Inr 12500
   \<and> map_sum id roi seller_scenario_pnl = Inr (500 / 3)
   \<and> map_sum id current_option_price seller_scenario_pnl = Inr 5"
  by (simp add: seller_scenario_pnl_def seller_scenario_def add_position_def Portfolio_init_def
        example_market_def empty_database_def check_risk_limits_def fresh_id_Nil
        update_position_pnl_def black_scholes_price_def calculate_position_pnl_def
        query_get_def PnLTracker_init_def hedges_of_def Let_def)

text \<open>
  On the same position \<open>calculate_seller_pnl\<close> subtracts the current obligation from the
  premium collected and reports the option profit 2500.
\<close>

lemma seller_scenario_seller_view:
  "(case seller_scenario of
      Inl e \<Rightarrow> Inl e
    | Inr (pos, db) \<Rightarrow>
        map_sum id (\<lambda>res. case res of Seller_Error m \<Rightarrow> None | Seller_Pnl sp \<Rightarrow> Some (sp_option_profit sp))
          (calculate_seller_pnl (PnLTracker_init example_market 100) db 0 (pos_id pos)))
   = Inr (Some 2500)"
  by (simp add: seller_scenario_def add_position_def Portfolio_init_def
        example_market_def empty_database_def check_risk_limits_def fresh_id_Nil
        update_position_pnl_def black_scholes_price_def calculate_position_pnl_def
        calculate_seller_pnl_def
        query_get_def PnLTracker_init_def hedges_of_def Let_def)

section \<open>Properties of the delta hedger\<close>

lemma calculate_hedge_requirements_returns:
  assumes "get_stock_price (dh_market_data dh) (symbol pos) = Inr price"
  shows "\<exists>rep. calculate_hedge_requirements dh db today pos = Inr rep"
  using assms by (simp add: calculate_hedge_requirements_def Let_def)

text \<open>
  C7. Every report returned by \<open>calculate_hedge_requirements\<close> has
  \<open>current_hedge_shares\<close> the sum of the quantities of the position's hedges,
  \<open>net_delta = position_delta + current_hedge_shares\<close>,
  \<open>required_hedge_shares = - net_delta\<close>, and \<open>should_rehedge\<close> true exactly when
  \<open>position_delta\<close> is not 0 and \<open>\<bar>net_delta / position_delta\<bar>\<close> exceeds the rehedge
  threshold; in particular it is false when \<open>position_delta\<close> is exactly 0.
\<close>

theorem hedge_requirements_report:
  assumes "calculate_hedge_requirements dh db today pos = Inr rep"
  shows "current_hedge_shares rep = sum_list (map hedge_quantity (hedges_of db pos))
       \<and> position_delta rep
           = option_delta rep * real_of_int (quantity pos) * real_of_int (dh_multiplier dh)
       \<and> net_delta rep = position_delta rep + current_hedge_shares rep
       \<and> required_hedge_shares rep = - net_delta rep
       \<and> should_rehedge rep
           = (position_delta rep \<noteq> 0
              \<and> \<bar>net_delta rep / position_delta rep\<bar> > rehedge_threshold dh)
       \<and> (position_delta rep = 0 \<longrightarrow> \<not> should_rehedge rep)"
proof (cases "get_stock_price (dh_market_data dh) (symbol pos)")
  case (Inl e)
  with assms show ?thesis
    by (simp add: calculate_hedge_requirements_def)
next
  case (Inr price)
  with assms have "rep = projr (calculate_hedge_requirements dh db today pos)"
    by simp
  then show ?thesis
    unfolding calculate_hedge_requirements_def Let_def Inr
    by simp
qed

theorem hedge_requirements_report_witness:
  "\<exists>rep. calculate_hedge_requirements example_hedger example_database 0 example_position = Inr rep
        \<and> current_hedge_shares rep = 0
        \<and> net_delta rep = position_delta rep + current_hedge_shares rep
        \<and> required_hedge_shares rep = - net_delta rep
        \<and> should_rehedge rep
            = (position_delta rep \<noteq> 0
               \<and> \<bar>net_delta rep / position_delta rep\<bar> > rehedge_threshold example_hedger)"
proof -
  have "get_stock_price (dh_market_data example_hedger) (symbol example_position) = Inr 150"
    by (simp add: example_hedger_def DeltaHedger_init_def example_market_def)
  then obtain rep where
    rep: "calculate_hedge_requirements example_hedger example_database 0 example_position = Inr rep"
    using calculate_hedge_requirements_returns by blast
  have "hedges_of example_database example_position = []"
    by (simp add: hedges_of_def example_database_def)
  with hedge_requirements_report [OF rep] rep show ?thesis
    by simp
qed

lemma hedges_of_append:
  "hedges_of (db\<lparr>hedges := hedges db @ [h], trades := ts\<rparr>) pos
     = hedges_of db pos @ (if position_id h = pos_id pos then [h] else [])"
  by (simp add: hedges_of_def)

lemma execute_hedge_returns:
  assumes "get_stock_price (dh_market_data dh) (symbol pos) = Inr price"
  shows "\<exists>h db'. execute_hedge dh db today pos shares_arg kind = Inr (h, db')"
  using assms
  by (simp add: execute_hedge_def calculate_hedge_requirements_def Let_def split: option.splits)

text \<open>
  C8. Every hedge record created by \<open>execute_hedge\<close> has
  \<open>delta_after = delta_before + hedge_quantity\<close> and is appended to the hedge table. When
  the shares are left to be calculated, \<open>delta_after\<close> is within 0.01 of zero, and it is
  the net delta that \<open>calculate_hedge_requirements\<close> then finds for the position.
\<close>

theorem execute_hedge_delta:
  assumes "execute_hedge dh db today pos shares_arg kind = Inr (h, db')"
  shows "delta_after h = delta_before h + hedge_quantity h
       \<and> hedges db' = hedges db @ [h]
       \<and> (shares_arg = None \<longrightarrow>
            \<bar>delta_after h\<bar> \<le> 1 / 100
            \<and> (\<exists>rep. calculate_hedge_requirements dh db' today pos = Inr rep
                     \<and> net_delta rep = delta_after h))"
  using assms
  by (auto simp add: execute_hedge_def calculate_hedge_requirements_def Let_def hedges_of_append
        split: sum.splits option.splits)

theorem execute_hedge_delta_witness:
  "\<exists>h db'. execute_hedge example_hedger example_database 0 example_position None ''initial''
             = Inr (h, db')
          \<and> delta_after h = delta_before h + hedge_quantity h
          \<and> hedges db' = [h]
          \<and> \<bar>delta_after h\<bar> \<le> 1 / 100"
proof -
  have "get_stock_price (dh_market_data example_hedger) (symbol example_position) = Inr 150"
    by (simp add: example_hedger_def DeltaHedger_init_def example_market_def)
  then obtain h db' where
    run: "execute_hedge example_hedger example_database 0 example_position None ''initial''
            = Inr (h, db')"
    using execute_hedge_returns by blast
  have empty: "hedges example_database = []"
    by (simp add: example_database_def)
  have "delta_after h = delta_before h + hedge_quantity h"
    and "hedges db' = hedges example_database @ [h]"
    and "\<bar>delta_after h\<bar> \<le> 1 / 100"
    using execute_hedge_delta [OF run] by blast+
  with run empty show ?thesis
    by (intro exI [of _ h] exI [of _ db']) simp
qed

lemma rehedge_body_preview:
  "rehedge_body dh today False pos (db, recs, done_hedges) = (db1, recs1, done1)
     \<Longrightarrow> db1 = db \<and> done1 = done_hedges"
  by (auto simp add: rehedge_body_def Let_def split: sum.splits rehedge_check.splits if_splits)

lemma rehedge_loop_preview:
  "fold (rehedge_body dh today False) ps (db, recs, done_hedges) = (db1, recs1, done1)
     \<Longrightarrow> db1 = db \<and> done1 = done_hedges"
proof (induction ps arbitrary: recs)
  case Nil
  then show ?case by simp
next
  case (Cons p ps)
  obtain db2 recs2 done2 where
    step: "rehedge_body dh today False p (db, recs, done_hedges) = (db2, recs2, done2)"
    by (metis prod_cases3)
  then have "db2 = db" and "done2 = done_hedges"
    using rehedge_body_preview by blast+
  with Cons step show ?case by simp
qed

text \<open>
  C9. \<open>auto_rehedge_portfolio\<close> with \<open>execute = False\<close> is read-only: the database it
  leaves is the database it was given (no hedge and no trade is added, every position keeps
  its hedges), the list of executed hedges is empty, their count is 0 and the total cost is 0.
\<close>

theorem auto_rehedge_preview_is_read_only:
  "snd (auto_rehedge_portfolio dh db today False) = db
   \<and> executed (fst (auto_rehedge_portfolio dh db today False)) = []
   \<and> total_executed (fst (auto_rehedge_portfolio dh db today False)) = 0
   \<and> summary_total_cost (fst (auto_rehedge_portfolio dh db today False)) = 0"
proof -
  obtain db1 recs done1 where
    run: "fold (rehedge_body dh today False) (query_open db) (db, [], []) = (db1, recs, done1)"
    by (metis prod_cases3)
  then have "db1 = db"
    using rehedge_loop_preview by blast
  with run show ?thesis
    by (simp add: auto_rehedge_portfolio_def)
qed

text \<open>
  C10. \<open>check_rehedge_needed\<close> does not fail for an unknown position id or for a position
  that is not open: it returns the result with \<open>needed = False\<close> and the reason
  \<^verbatim>\<open>Position not open\<close>.
\<close>

theorem check_rehedge_needed_not_open:
  assumes "pid \<notin> set (map pos_id (positions db))
         \<or> (\<exists>pos. query_get db pid = Some pos \<and> status pos \<noteq> ''open'')"
  shows "check_rehedge_needed dh db today pid = Inr (Not_Needed ''Position not open'')
       \<and> (\<exists>res. check_rehedge_needed dh db today pid = Inr res
                \<and> needed res = False \<and> reason res = Some ''Position not open'')"
proof -
  have "query_get db pid = None" if "pid \<notin> set (map pos_id (positions db))"
    using that by (auto simp add: query_get_def find_None_iff)
  with assms have "check_rehedge_needed dh db today pid = Inr (Not_Needed ''Position not open'')"
    by (auto simp add: check_rehedge_needed_def)
  then show ?thesis by simp
qed

theorem check_rehedge_needed_not_open_witness:
  "check_rehedge_needed example_hedger example_database 0 7 = Inr (Not_Needed ''Position not open'')
   \<and> check_rehedge_needed example_hedger
        (example_database\<lparr>positions := [example_position\<lparr>status := ''closed''\<rparr>]\<rparr>) 0 1
       = Inr (Not_Needed ''Position not open'')"
proof -
  have unknown: "7 \<notin> set (map pos_id (positions example_database))"
    by (simp add: example_database_def example_position_def)
  have closed:
    "\<exists>pos. query_get (example_database\<lparr>positions := [example_position\<lparr>status := ''closed''\<rparr>]\<rparr>) 1
              = Some pos \<and> status pos \<noteq> ''open''"
    by (simp add: query_get_def example_database_def example_position_def)
  show ?thesis
    using check_rehedge_needed_not_open [OF disjI1 [OF unknown], of example_hedger 0]
          check_rehedge_needed_not_open [OF disjI2 [OF closed], of example_hedger 0]
    by blast
qed

end
